theory Spec2Isabelle
  imports Complex_Main "HOL-Library.Sublist"
begin

section \<open>Python values shared by the notebook cells\<close>

text \<open>
  The notebook \<^verbatim>\<open>gemma-2b_FT.ipynb\<close> is a sequence of Python cells. Exceptions are
  values: a cell or function that can raise returns \<open>exn + 'a\<close>, with \<open>Inl\<close> the
  exception that propagates.
\<close>

datatype exn =
    NameError string
  | IndexError
  | KeyError string
  | TypeError
  | ValueError
  | FileNotFoundError string

text \<open>
  \<^verbatim>\<open>xs[i]\<close> on a Python list: a negative index counts from the end, an index
  outside the list raises IndexError.
\<close>

definition py_getitem :: "'a list \<Rightarrow> int \<Rightarrow> exn + 'a" where
  "py_getitem xs i =
     (let k = (if i < 0 then i + int (length xs) else i)
      in if k < 0 \<or> int (length xs) \<le> k then Inl IndexError else Inr (xs ! nat k))"

section \<open>Target-module discovery: \<^verbatim>\<open>find_all_linear_names\<close>\<close>

text \<open>
  \<^verbatim>\<open>
  def find_all_linear_names(model):
      cls = bnb.nn.Linear4bit
      lora_module_names = set()
      for name, module in model.named_modules():
          if isinstance(module, cls):
              names = name.split('.')
              lora_module_names.add(names[0] if len(names) == 1 else names[-1])
          if 'lm_head' in lora_module_names:
              lora_module_names.remove('lm_head')
      return list(lora_module_names)
  \<close>
\<close>

text \<open>
  A module is observed only through \<^verbatim>\<open>isinstance\<close>: it carries the method resolution
  order of its class (the class itself first, then its bases), and
  \<^verbatim>\<open>isinstance(module, cls)\<close> holds when \<^verbatim>\<open>cls\<close> occurs in it.
\<close>

record nn_module =
  mro :: "string list"

definition isinstance :: "nn_module \<Rightarrow> string \<Rightarrow> bool" where
  "isinstance m cls = (cls \<in> set (mro m))"

definition Linear4bit :: string where
  "Linear4bit = ''bnb.nn.Linear4bit''"

text \<open>
  The model is given by what \<^verbatim>\<open>model.named_modules()\<close> yields: the sequence of
  (qualified name, module) pairs, in traversal order.
\<close>

type_synonym named_modules = "(string \<times> nn_module) list"

text \<open>\<^verbatim>\<open>name.split('.')\<close>: the segments between the dots; never an empty list.\<close>

fun str_split_dot :: "string \<Rightarrow> string list" where
  "str_split_dot [] = [[]]"
| "str_split_dot (c # cs) =
     (if c = CHR ''.'' then [] # str_split_dot cs
      else (case str_split_dot cs of
              [] \<Rightarrow> [[c]]
            | seg # segs \<Rightarrow> (c # seg) # segs))"

text \<open>
  A Python \<^verbatim>\<open>set\<close> of strings, kept as a list without repetition. The order in which
  \<^verbatim>\<open>list(s)\<close> enumerates it is not fixed by Python; the model takes insertion order,
  and no statement below depends on the order.
\<close>

type_synonym py_set = "string list"

definition set_add :: "string \<Rightarrow> py_set \<Rightarrow> py_set" where
  "set_add x s = (if x \<in> set s then s else s @ [x])"

definition set_remove :: "string \<Rightarrow> py_set \<Rightarrow> exn + py_set" where
  "set_remove x s = (if x \<in> set s then Inr (removeAll x s) else Inl (KeyError x))"

text \<open>The expression \<^verbatim>\<open>names[0] if len(names) == 1 else names[-1]\<close>.\<close>

definition pick_segment :: "string list \<Rightarrow> exn + string" where
  "pick_segment names = (if length names = 1 then py_getitem names 0 else py_getitem names (- 1))"

text \<open>One iteration of the loop body, on the current set.\<close>

definition linear_names_step :: "string \<times> nn_module \<Rightarrow> py_set \<Rightarrow> exn + py_set" where
  "linear_names_step nm s =
     (case (if isinstance (snd nm) Linear4bit
            then (case pick_segment (str_split_dot (fst nm)) of
                    Inl e \<Rightarrow> Inl e
                  | Inr seg \<Rightarrow> Inr (set_add seg s))
            else Inr s) of
        Inl e \<Rightarrow> Inl e
      | Inr s1 \<Rightarrow> (if ''lm_head'' \<in> set s1 then set_remove ''lm_head'' s1 else Inr s1))"

fun linear_names_loop :: "named_modules \<Rightarrow> py_set \<Rightarrow> exn + py_set" where
  "linear_names_loop [] s = Inr s"
| "linear_names_loop (nm # rest) s =
     (case linear_names_step nm s of
        Inl e \<Rightarrow> Inl e
      | Inr s' \<Rightarrow> linear_names_loop rest s')"

definition find_all_linear_names :: "named_modules \<Rightarrow> exn + string list" where
  "find_all_linear_names model = linear_names_loop model []"

text \<open>
  The specification's wording, for comparison with the code: the last dot-separated
  segment of a name is what follows its last dot (the whole name when it has none).
\<close>

definition last_dot_segment :: "string \<Rightarrow> string" where
  "last_dot_segment name = rev (takeWhile (\<lambda>c. c \<noteq> CHR ''.'') (rev name))"

definition quantized_linear_segments :: "named_modules \<Rightarrow> string set" where
  "quantized_linear_segments model =
     (last_dot_segment \<circ> fst) ` {nm \<in> set model. isinstance (snd nm) Linear4bit}"

text \<open>
  A small model for the examples: the root module, two attention projections in
  different layers, a quantized head, a top-level quantized layer of a subclass of the
  4-bit linear class, and a normalisation layer.
\<close>

definition example_modules :: named_modules where
  "example_modules =
     [ ([], \<lparr>mro = [''GemmaForCausalLM'']\<rparr>),
       (''model.layers.0.self_attn.q_proj'', \<lparr>mro = [''bnb.nn.Linear4bit'', ''torch.nn.Linear'']\<rparr>),
       (''lm_head'', \<lparr>mro = [''bnb.nn.Linear4bit'', ''torch.nn.Linear'']\<rparr>),
       (''model.layers.1.self_attn.q_proj'', \<lparr>mro = [''bnb.nn.Linear4bit'', ''torch.nn.Linear'']\<rparr>),
       (''v_proj'', \<lparr>mro = [''bnb.nn.LinearNF4'', ''bnb.nn.Linear4bit'', ''torch.nn.Linear'']\<rparr>),
       (''model.norm'', \<lparr>mro = [''GemmaRMSNorm'']\<rparr>) ]"

section \<open>Dataset transformation: the cell of section 3.1\<close>

text \<open>
  \<^verbatim>\<open>
  import json
  import pandas as pd
  dataset = 'assets/dataset/dataset_5k.json'
  with open(dataset, 'r', encoding='utf-8') as f:
      data = json.load(f)
  converted_data = []
  for item in data:
      converted_item = {
  v
      }
      converted_data.append(converted_item)
  print("Example:")
  print(json.dumps(converted_data[0], indent=2, ensure_ascii=False))
  output_file = '/content/dataset_2k_prompt_completion.json'
  with open(output_file, 'w', encoding='utf-8') as f:
      json.dump(converted_data, f, indent=2, ensure_ascii=False)
  main_df = pd.read_json('/content/dataset_2k_prompt_completion.json')
  \<close>
  The braces around the bare name \<^verbatim>\<open>v\<close> are a set display with the one element
  \<^verbatim>\<open>v\<close>.
\<close>

text \<open>What \<^verbatim>\<open>json.load\<close> can return.\<close>

datatype json =
    JNull
  | JBool bool
  | JNum rat
  | JStr string
  | JArray "json list"
  | JObject "(string \<times> json) list"

text \<open>
  The values bound to names in the notebook: parsed JSON, Python lists and sets built
  by the cell, a data frame (rows with their index labels), and any other object
  (modules, file handles, the model), which the cell never inspects.
\<close>

datatype pyval =
    PJson json
  | PList "pyval list"
  | PSet "pyval list"
  | PFrame "(nat \<times> pyval) list"
  | PObject string

text \<open>
  The notebook's state: the global namespace and the files, by path. Directories and
  permissions are not modelled: a file can be created at any path.
\<close>

record nb_state =
  globals :: "string \<rightharpoonup> pyval"
  files :: "string \<rightharpoonup> string"

text \<open>
  The library functions the cell calls are parameters: the parsers, and the serialiser
  with its \<^verbatim>\<open>indent\<close> and \<^verbatim>\<open>ensure_ascii\<close> arguments. \<^verbatim>\<open>json.dump\<close> writes as
  it goes, so it yields the text written together with the exception that stopped it,
  if any.
\<close>

record libs =
  json_load :: "string \<Rightarrow> exn + json"
  json_dumps :: "pyval \<Rightarrow> nat \<Rightarrow> bool \<Rightarrow> exn + string"
  json_dump :: "pyval \<Rightarrow> nat \<Rightarrow> bool \<Rightarrow> string \<times> exn option"
  pd_read_json :: "string \<Rightarrow> exn + (nat \<times> pyval) list"

text \<open>
  Reading a name raises NameError when it is unbound. Python looks in the globals and
  then in the builtins; the only name the cell reads that is not bound by the cell
  itself is \<^verbatim>\<open>v\<close>, which is not a builtin, so the globals decide.
\<close>

definition load_name :: "nb_state \<Rightarrow> string \<Rightarrow> exn + pyval" where
  "load_name st x = (case globals st x of None \<Rightarrow> Inl (NameError x) | Some val \<Rightarrow> Inr val)"

definition store_name :: "string \<Rightarrow> pyval \<Rightarrow> nb_state \<Rightarrow> nb_state" where
  "store_name x val st = st\<lparr>globals := (globals st)(x \<mapsto> val)\<rparr>"

definition write_file :: "string \<Rightarrow> string \<Rightarrow> nb_state \<Rightarrow> nb_state" where
  "write_file path text st = st\<lparr>files := (files st)(path \<mapsto> text)\<rparr>"

definition dataset :: string where
  "dataset = ''assets/dataset/dataset_5k.json''"

definition output_file :: string where
  "output_file = ''/content/dataset_2k_prompt_completion.json''"

text \<open>Lines 167 to 173: the imports, and \<^verbatim>\<open>data = json.load(f)\<close>.\<close>

definition load_dataset :: "libs \<Rightarrow> nb_state \<Rightarrow> exn option \<times> nb_state" where
  "load_dataset L st =
     (let st1 = store_name ''json'' (PObject ''module json'') st;
          st2 = store_name ''pd'' (PObject ''module pandas'') st1;
          st3 = store_name ''dataset'' (PJson (JStr dataset)) st2
      in case files st3 dataset of
           None \<Rightarrow> (Some (FileNotFoundError dataset), st3)
         | Some text \<Rightarrow>
             (let st4 = store_name ''f'' (PObject ''file'') st3
              in case json_load L text of
                   Inl e \<Rightarrow> (Some e, st4)
                 | Inr d \<Rightarrow> (None, store_name ''data'' (PJson d) st4)))"

text \<open>
  \<^verbatim>\<open>for item in data\<close>: a list yields its elements, a dict its keys, a string its
  characters; None, a boolean or a number is not iterable. The cell builds lists and
  sets itself; a data frame or another object is never bound to \<^verbatim>\<open>data\<close>.
\<close>

fun py_iter :: "pyval \<Rightarrow> exn + pyval list" where
  "py_iter (PJson (JArray xs)) = Inr (map PJson xs)"
| "py_iter (PJson (JObject kvs)) = Inr (map (\<lambda>kv. PJson (JStr (fst kv))) kvs)"
| "py_iter (PJson (JStr s)) = Inr (map (\<lambda>c. PJson (JStr [c])) s)"
| "py_iter (PList xs) = Inr xs"
| "py_iter (PSet xs) = Inr xs"
| "py_iter _ = Inl TypeError"

text \<open>A set element must be hashable: lists, dicts and sets are not.\<close>

fun hashable :: "pyval \<Rightarrow> bool" where
  "hashable (PJson (JArray _)) = False"
| "hashable (PJson (JObject _)) = False"
| "hashable (PList _) = False"
| "hashable (PSet _) = False"
| "hashable (PFrame _) = False"
| "hashable _ = True"

text \<open>The right-hand side of the assignment to \<^verbatim>\<open>converted_item\<close>: the display \<^verbatim>\<open>{v}\<close>.\<close>

definition converted_item_display :: "nb_state \<Rightarrow> exn + pyval" where
  "converted_item_display st =
     (case load_name st ''v'' of
        Inl e \<Rightarrow> Inl e
      | Inr val \<Rightarrow> (if hashable val then Inr (PSet [val]) else Inl TypeError))"

text \<open>\<^verbatim>\<open>converted_data.append(converted_item)\<close>, on the list bound to the name.\<close>

definition append_converted :: "pyval \<Rightarrow> nb_state \<Rightarrow> exn + nb_state" where
  "append_converted x st =
     (case load_name st ''converted_data'' of
        Inl e \<Rightarrow> Inl e
      | Inr (PList xs) \<Rightarrow> Inr (store_name ''converted_data'' (PList (xs @ [x])) st)
      | Inr _ \<Rightarrow> Inl TypeError)"

text \<open>
  The loop over the items. The result is the exception that ended it (None when it
  ran to the end) and the state reached.
\<close>

fun convert_loop :: "pyval list \<Rightarrow> nb_state \<Rightarrow> exn option \<times> nb_state" where
  "convert_loop [] st = (None, st)"
| "convert_loop (item # rest) st =
     (let st1 = store_name ''item'' item st
      in case converted_item_display st1 of
           Inl e \<Rightarrow> (Some e, st1)
         | Inr ci \<Rightarrow>
             (let st2 = store_name ''converted_item'' ci st1
              in case append_converted ci st2 of
                   Inl e \<Rightarrow> (Some e, st2)
                 | Inr st3 \<Rightarrow> convert_loop rest st3))"

text \<open>Lines 175 to 181: \<^verbatim>\<open>converted_data = []\<close> and the loop.\<close>

definition convert_data :: "nb_state \<Rightarrow> exn option \<times> nb_state" where
  "convert_data st =
     (let st1 = store_name ''converted_data'' (PList []) st
      in case load_name st1 ''data'' of
           Inl e \<Rightarrow> (Some e, st1)
         | Inr d \<Rightarrow>
             (case py_iter d of
                Inl e \<Rightarrow> (Some e, st1)
              | Inr items \<Rightarrow> convert_loop items st1))"

text \<open>\<^verbatim>\<open>converted_data[0]\<close>.\<close>

definition first_converted :: "nb_state \<Rightarrow> exn + pyval" where
  "first_converted st =
     (case load_name st ''converted_data'' of
        Inl e \<Rightarrow> Inl e
      | Inr (PList xs) \<Rightarrow> py_getitem xs 0
      | Inr _ \<Rightarrow> Inl TypeError)"

text \<open>
  Lines 183 to 191: the example is printed (standard output is not part of the state,
  but serialising the example can raise), the file is opened for writing, which
  empties it, \<^verbatim>\<open>json.dump\<close> writes with \<^verbatim>\<open>indent=2\<close> and \<^verbatim>\<open>ensure_ascii=False\<close>, and
  the file is read back into \<^verbatim>\<open>main_df\<close>.
\<close>

definition store_and_reload :: "libs \<Rightarrow> nb_state \<Rightarrow> exn option \<times> nb_state" where
  "store_and_reload L st =
     (case first_converted st of
        Inl e \<Rightarrow> (Some e, st)
      | Inr example \<Rightarrow>
          (case json_dumps L example 2 False of
             Inl e \<Rightarrow> (Some e, st)
           | Inr printed \<Rightarrow>
               (let st1 = store_name ''output_file'' (PJson (JStr output_file)) st;
                    st2 = store_name ''f'' (PObject ''file'') (write_file output_file [] st1)
                in case load_name st2 ''converted_data'' of
                     Inl e \<Rightarrow> (Some e, st2)
                   | Inr cd \<Rightarrow>
                       (case json_dump L cd 2 False of
                          (written, Some e) \<Rightarrow> (Some e, write_file output_file written st2)
                        | (written, None) \<Rightarrow>
                            (let st3 = write_file output_file written st2
                             in case files st3 ''/content/dataset_2k_prompt_completion.json'' of
                                  None \<Rightarrow>
                                    (Some (FileNotFoundError
                                       ''/content/dataset_2k_prompt_completion.json''), st3)
                                | Some text \<Rightarrow>
                                    (case pd_read_json L text of
                                       Inl e \<Rightarrow> (Some e, st3)
                                     | Inr rows \<Rightarrow>
                                         (None, store_name ''main_df'' (PFrame rows) st3)))))))"

text \<open>The cell: the three parts in order, stopping at the first exception.\<close>

definition run_dataset_cell :: "libs \<Rightarrow> nb_state \<Rightarrow> exn option \<times> nb_state" where
  "run_dataset_cell L st =
     (case load_dataset L st of
        (Some e, st1) \<Rightarrow> (Some e, st1)
      | (None, st1) \<Rightarrow>
          (case convert_data st1 of
             (Some e, st2) \<Rightarrow> (Some e, st2)
           | (None, st2) \<Rightarrow> store_and_reload L st2))"

text \<open>
  The names bound when the cell starts, in a run of the notebook from the top: those
  assigned or imported by the cells of sections 1.2, 2.1 and 2.2. The name \<^verbatim>\<open>v\<close> is
  not among them.
\<close>

definition names_before_dataset_cell :: "string list" where
  "names_before_dataset_cell =
     [''login'', ''hf_token'', ''torch'', ''BitsAndBytesConfig'', ''bnb_config'',
      ''AutoTokenizer'', ''AutoModelForCausalLM'', ''model'', ''tokenizer'',
      ''input_text'', ''input_ids'', ''outputs'']"

definition globals_before_dataset_cell :: "string \<rightharpoonup> pyval" where
  "globals_before_dataset_cell =
     map_of (map (\<lambda>x. (x, PObject x)) names_before_dataset_cell)"

text \<open>A dataset file holding one item, and its parsed form, for the examples.\<close>

definition example_item :: json where
  "example_item =
     JObject [(''topic'', JStr ''Overfitting/Underfitting''),
              (''question'', JStr ''What is the role of complexity in model performance?'')]"

definition example_state :: "string \<Rightarrow> nb_state" where
  "example_state text =
     \<lparr>globals = globals_before_dataset_cell, files = [dataset \<mapsto> text]\<rparr>"

text \<open>A state in which the dataset has been loaded: two items.\<close>

definition loaded_state :: nb_state where
  "loaded_state =
     \<lparr>globals = globals_before_dataset_cell(''data'' \<mapsto> PJson (JArray [example_item, example_item])),
      files = Map.empty\<rparr>"

section \<open>Partitioning: the cell of section 3.2\<close>

text \<open>
  \<^verbatim>\<open>
  train_data, temp_data = train_test_split(main_df, test_size=0.2, random_state=42)
  eval_data, test_data = train_test_split(temp_data, test_size=0.5, random_state=42)
  \<close>
  A data frame is the list of its rows in order, each with its index label; selecting
  rows by position keeps their labels. A frame read from a JSON array has the labels
  \<open>0, 1, 2, \<dots>\<close> in order, so its labels are distinct, and a row is identified by
  its label: two rows with the same content are two examples.
\<close>

type_synonym 'a dataframe = "(nat \<times> 'a) list"

text \<open>
  The random number generator is a parameter: \<^verbatim>\<open>RandomState(seed)\<close> makes a generator
  state from a seed, \<open>global_state\<close> is the state of the process-wide generator, and
  \<open>permutation\<close> is the array \<^verbatim>\<open>rng.permutation(n)\<close> drawn from a state.
\<close>

record 'g numpy_random =
  RandomState :: "nat \<Rightarrow> 'g"
  global_state :: "'g"
  permutation :: "'g \<Rightarrow> nat \<Rightarrow> nat list"

text \<open>
  \<^verbatim>\<open>check_random_state\<close>: no seed means the process-wide generator, an integer seed
  a fresh generator made from it.
\<close>

definition check_random_state :: "'g numpy_random \<Rightarrow> nat option \<Rightarrow> 'g" where
  "check_random_state R random_state =
     (case random_state of None \<Rightarrow> global_state R | Some seed \<Rightarrow> RandomState R seed)"

text \<open>
  \<^verbatim>\<open>train_test_split\<close> is scikit-learn's; the notebook calls it with a fractional
  \<^verbatim>\<open>test_size\<close>, no \<^verbatim>\<open>train_size\<close>, shuffling and no stratification, and the model
  follows the library on that path. The sizes: a fraction outside the open interval
  from 0 to 1 is an error, the test part is the fraction of the rows rounded up, the
  train part is the rest (so the two never exceed the frame), and an empty train part
  is an error. The library multiplies in double precision; the model multiplies
  exactly.
\<close>

definition validate_shuffle_split :: "nat \<Rightarrow> real \<Rightarrow> exn + (nat \<times> nat)" where
  "validate_shuffle_split n_samples test_size =
     (if test_size \<le> 0 \<or> 1 \<le> test_size then Inl ValueError
      else (let n_test = nat \<lceil>test_size * real n_samples\<rceil>;
                n_train = n_samples - n_test
            in if n_train = 0 then Inl ValueError else Inr (n_train, n_test)))"

text \<open>Selecting rows by position; a position outside the frame raises IndexError.\<close>

definition safe_indexing :: "'a dataframe \<Rightarrow> nat list \<Rightarrow> exn + 'a dataframe" where
  "safe_indexing X indices =
     (if list_all (\<lambda>i. i < length X) indices then Inr (map (nth X) indices)
      else Inl IndexError)"

text \<open>
  \<^verbatim>\<open>train_test_split\<close> with shuffling: the first \<open>n_test\<close> entries of one permutation
  of the positions are the test rows, the next \<open>n_train\<close> the train rows
  (\<^verbatim>\<open>permutation[:n_test]\<close> and \<^verbatim>\<open>permutation[n_test:(n_test + n_train)]\<close>). It returns
  the train part first.
\<close>

definition train_test_split ::
  "'g numpy_random \<Rightarrow> 'a dataframe \<Rightarrow> real \<Rightarrow> nat option \<Rightarrow> exn + ('a dataframe \<times> 'a dataframe)" where
  "train_test_split R X test_size random_state =
     (case validate_shuffle_split (length X) test_size of
        Inl e \<Rightarrow> Inl e
      | Inr (n_train, n_test) \<Rightarrow>
          (let rng = check_random_state R random_state;
               perm = permutation R rng (length X);
               ind_test = take n_test perm;
               ind_train = take n_train (drop n_test perm)
           in case safe_indexing X ind_train of
                Inl e \<Rightarrow> Inl e
              | Inr train \<Rightarrow>
                  (case safe_indexing X ind_test of
                     Inl e \<Rightarrow> Inl e
                   | Inr test \<Rightarrow> Inr (train, test))))"

text \<open>The four frames the cell binds.\<close>

record 'a partitions =
  train_data :: "'a dataframe"
  temp_data :: "'a dataframe"
  eval_data :: "'a dataframe"
  test_data :: "'a dataframe"

definition split_cell :: "'g numpy_random \<Rightarrow> 'a dataframe \<Rightarrow> exn + 'a partitions" where
  "split_cell R main_df =
     (case train_test_split R main_df (2 / 10) (Some 42) of
        Inl e \<Rightarrow> Inl e
      | Inr (train, temp) \<Rightarrow>
          (case train_test_split R temp (5 / 10) (Some 42) of
             Inl e \<Rightarrow> Inl e
           | Inr (eval, test) \<Rightarrow>
               Inr \<lparr>train_data = train, temp_data = temp, eval_data = eval, test_data = test\<rparr>))"

text \<open>
  What is assumed of the generator: from the seed 42, \<^verbatim>\<open>permutation(n)\<close> is a
  permutation of the positions \<open>0, \<dots>, n - 1\<close>.
\<close>

definition seeded_permutations_valid :: "'g numpy_random \<Rightarrow> bool" where
  "seeded_permutations_valid R =
     (\<forall>n. distinct (permutation R (RandomState R 42) n)
          \<and> set (permutation R (RandomState R 42) n) = {0..<n})"

section \<open>The datasets handed to the trainer: the cell of section 4.5\<close>

text \<open>
  \<^verbatim>\<open>
  train_dataset = Dataset.from_pandas(train_data)
  eval_dataset = Dataset.from_pandas(temp_data)
  ...
  trainer = SFTTrainer(model=model, train_dataset=train_dataset,
                       eval_dataset=eval_dataset, peft_config=lora_config,
                       args=training_arguments)
  \<close>
  \<^verbatim>\<open>Dataset.from_pandas\<close> keeps the rows of the frame, so a dataset is modelled by the
  frame it was made from.
\<close>

definition from_pandas :: "'a dataframe \<Rightarrow> 'a dataframe" where
  "from_pandas df = df"

record 'a sft_trainer =
  train_dataset :: "'a dataframe"
  eval_dataset :: "'a dataframe"

definition make_trainer :: "'a partitions \<Rightarrow> 'a sft_trainer" where
  "make_trainer P =
     \<lparr>train_dataset = from_pandas (train_data P), eval_dataset = from_pandas (temp_data P)\<rparr>"

text \<open>
  For the examples: a stand-in generator whose state is a number and whose permutation
  rotates the positions by it, and the ten-record toy dataset of the specification,
  with the labels \<open>0, \<dots>, 9\<close> that reading the file gives.
\<close>

definition example_rng :: "nat numpy_random" where
  "example_rng =
     \<lparr>RandomState = (\<lambda>seed. seed), global_state = 7,
      permutation = (\<lambda>g n. rotate g [0..<n])\<rparr>"

record example =
  prompt :: string
  completion :: string

definition toy_frame :: "example dataframe" where
  "toy_frame = map (\<lambda>i. (i, \<lparr>prompt = ''Ask about X'', completion = ''What is X?''\<rparr>)) [0..<10]"

text \<open>The four frames of the toy dataset under the stand-in generator, by label.\<close>

definition toy_partitions :: "example partitions" where
  "toy_partitions =
     \<lparr>train_data = map (nth toy_frame) [4, 5, 6, 7, 8, 9, 0, 1],
      temp_data = map (nth toy_frame) [2, 3],
      eval_data = map (nth toy_frame) [3],
      test_data = map (nth toy_frame) [2]\<rparr>"

section \<open>Qualitative generation: \<^verbatim>\<open>get_completion\<close>\<close>

text \<open>
  \<^verbatim>\<open>
  def get_completion(query:str, model, tokenizer) -> str:
    device = "cuda:0"
    prompt_template = """
    <start_of_turn>
     user
     {query}
     <end_of_turn>\n
     <start_of_turn>model
    """
    prompt = prompt_template.format(query=query)
    encodeds = tokenizer(prompt, return_tensors="pt", add_special_tokens=True)
    model_inputs = encodeds.to(device)
    generated_ids = model.generate(**model_inputs, max_new_tokens=1000,
                                   do_sample=True, pad_token_id=tokenizer.eos_token_id)
    decoded = tokenizer.decode(generated_ids[0], skip_special_tokens=True)
    return(decoded)
  \<close>
  In the source the template lines are indented by two and three spaces, and the
  escape after \<^verbatim>\<open><end_of_turn>\<close> is a second line break.
\<close>

definition NL :: string where
  "NL = [CHR 0x0A]"

text \<open>The template, cut at its one replacement field \<^verbatim>\<open>{query}\<close>.\<close>

definition template_before :: string where
  "template_before = NL @ ''  <start_of_turn>'' @ NL @ ''   user'' @ NL @ ''   ''"

definition template_after :: string where
  "template_after =
     NL @ ''   <end_of_turn>'' @ NL @ NL @ ''   <start_of_turn>model'' @ NL @ ''  ''"

definition prompt_template :: string where
  "prompt_template = template_before @ ''{query}'' @ template_after"

text \<open>
  \<^verbatim>\<open>prompt_template.format(query=query)\<close>: the template has no other brace, so the
  result is the template with the field replaced by the query, as it is.
\<close>

definition format_prompt :: "string \<Rightarrow> string" where
  "format_prompt query = template_before @ query @ template_after"

text \<open>
  The tokenizer and the model are parameters. A tokenizer encodes a text, adding its
  special tokens when asked to, and decodes token ids, leaving the special tokens out
  when asked to. \<^verbatim>\<open>generate\<close> takes the ids of the one input sequence and the
  generation arguments and returns a batch of sequences, or raises.
\<close>

record 't tokenizer =
  encode :: "string \<Rightarrow> bool \<Rightarrow> 't list"
  decode :: "'t list \<Rightarrow> bool \<Rightarrow> string"
  eos_token_id :: "'t"

record 't generate_args =
  max_new_tokens :: nat
  do_sample :: bool
  pad_token_id :: "'t"

type_synonym 't causal_lm = "'t list \<Rightarrow> 't generate_args \<Rightarrow> exn + 't list list"

definition get_completion :: "string \<Rightarrow> 't causal_lm \<Rightarrow> 't tokenizer \<Rightarrow> exn + string" where
  "get_completion query model tok =
     (let prompt = format_prompt query;
          encodeds = encode tok prompt True
      in case model encodeds
                \<lparr>max_new_tokens = 1000, do_sample = True, pad_token_id = eos_token_id tok\<rparr> of
           Inl e \<Rightarrow> Inl e
         | Inr generated_ids \<Rightarrow>
             (case py_getitem generated_ids 0 of
                Inl e \<Rightarrow> Inl e
              | Inr ids \<Rightarrow> Inr (decode tok ids True)))"

text \<open>
  The run recorded in the notebook: the query of the last cell and the text it printed
  (the output of the cell, without the line break that \<^verbatim>\<open>print\<close> adds).
\<close>

definition recorded_query :: string where
  "recorded_query = ''Ask a question about Overfitting/Underfitting.''"

definition recorded_continuation :: string where
  "recorded_continuation = ''What causes overfitting and how can it be prevented?''"

definition recorded_output :: string where
  "recorded_output =
     NL @ ''  '' @ NL @ ''   user'' @ NL @ ''   Ask a question about Overfitting/Underfitting.''
     @ NL @ ''   '' @ NL @ NL @ ''   model'' @ NL
     @ ''  What causes overfitting and how can it be prevented?''"

text \<open>
  A tokenizer and a model that reproduce the recorded run. The tokenizer has the
  special tokens of the chat format and one token per character; the turn markers in
  a text become their special tokens. The model returns its input followed by the
  recorded continuation and the end-of-sequence token.
\<close>

datatype marker_token = Bos | Eos | StartOfTurn | EndOfTurn | Chr char

function tokenize :: "string \<Rightarrow> marker_token list" where
  "tokenize [] = []"
| "tokenize (c # cs) =
     (if prefix ''<start_of_turn>'' (c # cs) then StartOfTurn # tokenize (drop 14 cs)
      else if prefix ''<end_of_turn>'' (c # cs) then EndOfTurn # tokenize (drop 12 cs)
      else Chr c # tokenize cs)"
  by pat_completeness auto
termination
  by (relation "measure length") auto

fun token_text :: "marker_token \<Rightarrow> string" where
  "token_text Bos = ''<bos>''"
| "token_text Eos = ''<eos>''"
| "token_text StartOfTurn = ''<start_of_turn>''"
| "token_text EndOfTurn = ''<end_of_turn>''"
| "token_text (Chr c) = [c]"

fun is_special :: "marker_token \<Rightarrow> bool" where
  "is_special (Chr c) = False"
| "is_special _ = True"

definition marker_tokenizer :: "marker_token tokenizer" where
  "marker_tokenizer =
     \<lparr>encode = (\<lambda>s add_special_tokens.
                  (if add_special_tokens then [Bos] else []) @ tokenize s),
      decode = (\<lambda>ids skip_special_tokens.
                  concat (map token_text
                    (if skip_special_tokens then filter (\<lambda>t. \<not> is_special t) ids else ids))),
      eos_token_id = Eos\<rparr>"

definition recorded_model :: "marker_token causal_lm" where
  "recorded_model input_ids args = Inr [input_ids @ map Chr recorded_continuation @ [Eos]]"

text \<open>
  For comparison with what is returned: a text without its turn markers, that is, with
  every occurrence of \<^verbatim>\<open><start_of_turn>\<close> and \<^verbatim>\<open><end_of_turn>\<close> removed, read from
  the left.
\<close>

function strip_markers :: "string \<Rightarrow> string" where
  "strip_markers [] = []"
| "strip_markers (c # cs) =
     (if prefix ''<start_of_turn>'' (c # cs) then strip_markers (drop 14 cs)
      else if prefix ''<end_of_turn>'' (c # cs) then strip_markers (drop 12 cs)
      else c # strip_markers cs)"
  by pat_completeness auto
termination
  by (relation "measure length") auto

section \<open>Properties of target-module discovery\<close>

lemma str_split_dot_nonempty: "str_split_dot name \<noteq> []"
  by (induction name) (auto split: list.splits)

lemma str_split_dot_no_dot: "CHR ''.'' \<notin> set name \<Longrightarrow> str_split_dot name = [name]"
  by (induction name) auto

lemma length_str_split_dot:
  "length (str_split_dot name) = Suc (length (filter (\<lambda>c. c = CHR ''.'') name))"
  by (induction name) (auto split: list.splits)

lemma last_dot_segment_Cons:
  "last_dot_segment (c # cs) =
     (if CHR ''.'' \<in> set cs then last_dot_segment cs
      else if c = CHR ''.'' then cs else c # cs)"
  by (auto simp: last_dot_segment_def takeWhile_append takeWhile_eq_all_conv [THEN iffD2])

lemma last_str_split_dot: "last (str_split_dot name) = last_dot_segment name"
proof (induction name)
  case Nil
  show ?case by (simp add: last_dot_segment_def)
next
  case (Cons c cs)
  show ?case
  proof (cases "CHR ''.'' \<in> set cs")
    case True
    then have "filter (\<lambda>c. c = CHR ''.'') cs \<noteq> []"
      by (auto simp: filter_empty_conv)
    then have "2 \<le> length (str_split_dot cs)"
      by (cases "filter (\<lambda>c. c = CHR ''.'') cs") (auto simp: length_str_split_dot)
    then obtain seg seg' segs where "str_split_dot cs = seg # seg' # segs"
      by (cases "str_split_dot cs"; cases "tl (str_split_dot cs)") auto
    then show ?thesis
      using Cons True by (auto simp: last_dot_segment_Cons)
  next
    case False
    then show ?thesis
      by (simp add: last_dot_segment_Cons str_split_dot_no_dot)
  qed
qed

lemma py_getitem_last: "xs \<noteq> [] \<Longrightarrow> py_getitem xs (- 1) = Inr (last xs)"
proof -
  assume ne: "xs \<noteq> []"
  then have "nat (- 1 + int (length xs)) = length xs - 1" by simp
  with ne show ?thesis
    by (cases xs) (simp_all add: py_getitem_def last_conv_nth)
qed

lemma py_getitem_first: "xs \<noteq> [] \<Longrightarrow> py_getitem xs 0 = Inr (xs ! 0)"
  by (cases xs) (simp_all add: py_getitem_def)

lemma pick_segment_split: "pick_segment (str_split_dot name) = Inr (last_dot_segment name)"
proof -
  have ne: "str_split_dot name \<noteq> []" by (rule str_split_dot_nonempty)
  have "pick_segment (str_split_dot name) = Inr (last (str_split_dot name))"
  proof (cases "length (str_split_dot name) = 1")
    case True
    then have "last (str_split_dot name) = str_split_dot name ! 0"
      by (cases "str_split_dot name") auto
    with True ne show ?thesis
      by (simp add: pick_segment_def py_getitem_first)
  next
    case False
    with ne show ?thesis
      by (simp add: pick_segment_def py_getitem_last)
  qed
  then show ?thesis by (simp add: last_str_split_dot)
qed

lemma quantized_linear_segments_list:
  "quantized_linear_segments model =
     set (map (last_dot_segment \<circ> fst) (filter (\<lambda>nm. isinstance (snd nm) Linear4bit) model))"
  by (auto simp: quantized_linear_segments_def)

lemma linear_names_step_eq:
  "linear_names_step nm s =
     Inr (removeAll ''lm_head''
            (if isinstance (snd nm) Linear4bit then set_add (last_dot_segment (fst nm)) s else s))"
  by (simp add: linear_names_step_def pick_segment_split set_remove_def)

lemma set_set_add: "set (set_add x s) = insert x (set s)"
  by (auto simp: set_add_def)

lemma distinct_set_add: "distinct s \<Longrightarrow> distinct (set_add x s)"
  by (simp add: set_add_def)

lemma linear_names_loop_inv:
  "''lm_head'' \<notin> set s \<Longrightarrow> distinct s \<Longrightarrow>
   \<exists>r. linear_names_loop model s = Inr r
     \<and> set r = (set s \<union> quantized_linear_segments model) - {''lm_head''}
     \<and> distinct r"
proof (induction model arbitrary: s)
  case Nil
  then show ?case by (simp add: quantized_linear_segments_def)
next
  case (Cons nm rest)
  define s' where
    "s' = removeAll ''lm_head''
            (if isinstance (snd nm) Linear4bit then set_add (last_dot_segment (fst nm)) s else s)"
  have step: "linear_names_step nm s = Inr s'"
    by (simp add: linear_names_step_eq s'_def)
  have inv: "''lm_head'' \<notin> set s'" "distinct s'"
    using Cons.prems by (simp_all add: s'_def distinct_removeAll distinct_set_add)
  from Cons.IH [OF inv] obtain r where
    r: "linear_names_loop rest s' = Inr r"
       "set r = (set s' \<union> quantized_linear_segments rest) - {''lm_head''}"
       "distinct r"
    by blast
  have "set s' \<union> quantized_linear_segments rest - {''lm_head''}
      = set s \<union> quantized_linear_segments (nm # rest) - {''lm_head''}"
    by (auto simp: s'_def set_set_add quantized_linear_segments_def)
  with r step show ?case by simp
qed

text \<open>
  C2. For every model, whatever the traversal order and whether or not the head layer
  is itself a 4-bit linear module, \<^verbatim>\<open>find_all_linear_names\<close> returns normally and the
  list it returns does not contain the name \<^verbatim>\<open>lm_head\<close>.
\<close>

theorem find_all_linear_names_excludes_lm_head:
  "\<exists>names. find_all_linear_names model = Inr names \<and> ''lm_head'' \<notin> set names"
proof -
  have "\<exists>r. linear_names_loop model [] = Inr r
          \<and> set r = (set [] \<union> quantized_linear_segments model) - {''lm_head''}
          \<and> distinct r"
    by (rule linear_names_loop_inv) simp_all
  then show ?thesis
    by (auto simp: find_all_linear_names_def)
qed

text \<open>
  C7. For every model, \<^verbatim>\<open>find_all_linear_names\<close> returns exactly the last dot-separated
  segments of the names of the sublayers that are instances of the 4-bit linear class,
  minus \<^verbatim>\<open>lm_head\<close>; each segment occurs once in the returned list; and the last
  segment of a name without a dot is the name itself.
\<close>

theorem find_all_linear_names_exact:
  "\<exists>names. find_all_linear_names model = Inr names
     \<and> set names = quantized_linear_segments model - {''lm_head''}
     \<and> distinct names
     \<and> (\<forall>name. CHR ''.'' \<notin> set name \<longrightarrow> last_dot_segment name = name)"
proof -
  have "\<exists>r. linear_names_loop model [] = Inr r
          \<and> set r = (set [] \<union> quantized_linear_segments model) - {''lm_head''}
          \<and> distinct r"
    by (rule linear_names_loop_inv) simp_all
  moreover have "\<forall>name. CHR ''.'' \<notin> set name \<longrightarrow> last_dot_segment name = name"
    using last_str_split_dot str_split_dot_no_dot by (metis last.simps)
  ultimately show ?thesis
    by (auto simp: find_all_linear_names_def)
qed

theorem find_all_linear_names_exact_witness:
  "\<exists>names. find_all_linear_names example_modules = Inr names
     \<and> set names = {''q_proj'', ''v_proj''}
     \<and> distinct names
     \<and> last_dot_segment ''v_proj'' = ''v_proj''"
proof -
  have "quantized_linear_segments example_modules
          = {''q_proj'', ''lm_head'', ''q_proj'', ''v_proj''}"
    by (simp add: quantized_linear_segments_list example_modules_def isinstance_def
        Linear4bit_def last_dot_segment_def)
  then have segs: "quantized_linear_segments example_modules - {''lm_head''} = {''q_proj'', ''v_proj''}"
    by auto
  have nodot: "CHR ''.'' \<notin> set ''v_proj''"
    by simp
  from find_all_linear_names_exact [of example_modules] obtain names where
    "find_all_linear_names example_modules = Inr names"
    "set names = quantized_linear_segments example_modules - {''lm_head''}"
    "distinct names"
    "\<forall>name. CHR ''.'' \<notin> set name \<longrightarrow> last_dot_segment name = name"
    by blast
  with segs nodot show ?thesis
    by auto
qed

section \<open>Properties of the dataset transformation cell\<close>

lemma files_store_name [simp]: "files (store_name x v st) = files st"
  by (simp add: store_name_def)

lemma globals_store_name [simp]: "globals (store_name x v st) = (globals st)(x \<mapsto> v)"
  by (simp add: store_name_def)

lemma convert_loop_unbound:
  "globals st ''v'' = None \<Longrightarrow>
   convert_loop (item # rest) st = (Some (NameError ''v''), store_name ''item'' item st)"
  by (simp add: converted_item_display_def load_name_def)

text \<open>
  C4. In a state where the name \<^verbatim>\<open>v\<close> is unbound, as it is when the notebook is run
  from the top, the transformation loop over any non-empty input array raises
  \<^verbatim>\<open>NameError\<close> for \<^verbatim>\<open>v\<close> while evaluating the projection of the first item: the
  state it stops in has the first item bound to \<^verbatim>\<open>item\<close> and \<^verbatim>\<open>converted_data\<close> still
  empty, so no item has been projected and the step does not complete.
\<close>

theorem convert_data_raises_on_first_item:
  assumes "globals st ''v'' = None"
    and "globals st ''data'' = Some (PJson (JArray (item # rest)))"
  shows "convert_data st =
           (Some (NameError ''v''),
            store_name ''item'' (PJson item) (store_name ''converted_data'' (PList []) st))"
proof -
  let ?st1 = "store_name ''converted_data'' (PList []) st"
  have data: "load_name ?st1 ''data'' = Inr (PJson (JArray (item # rest)))"
    using assms(2) by (simp add: load_name_def)
  have unbound: "globals ?st1 ''v'' = None"
    using assms(1) by simp
  have "convert_loop (PJson item # map PJson rest) ?st1
          = (Some (NameError ''v''), store_name ''item'' (PJson item) ?st1)"
    using unbound by (rule convert_loop_unbound)
  then show ?thesis
    using data by (simp add: convert_data_def Let_def)
qed

lemma v_unbound_before: "globals_before_dataset_cell ''v'' = None"
  by (simp add: globals_before_dataset_cell_def names_before_dataset_cell_def)

theorem convert_data_raises_on_first_item_witness:
  "convert_data loaded_state =
     (Some (NameError ''v''),
      store_name ''item'' (PJson example_item) (store_name ''converted_data'' (PList []) loaded_state))"
proof -
  have a: "globals loaded_state ''v'' = None"
    by (simp add: loaded_state_def v_unbound_before)
  have b: "globals loaded_state ''data'' = Some (PJson (JArray (example_item # [example_item])))"
    by (simp add: loaded_state_def)
  show ?thesis
    using convert_data_raises_on_first_item [OF a b] .
qed

lemma first_converted_empty:
  "globals st ''converted_data'' = Some (PList []) \<Longrightarrow> first_converted st = Inl IndexError"
  by (simp add: first_converted_def load_name_def py_getitem_def)

lemma convert_data_outcome:
  assumes "globals st ''v'' = None"
  shows "(\<exists>e. fst (convert_data st) = Some e \<and> files (snd (convert_data st)) = files st)
       \<or> convert_data st = (None, store_name ''converted_data'' (PList []) st)"
proof -
  let ?st1 = "store_name ''converted_data'' (PList []) st"
  have unbound: "globals ?st1 ''v'' = None"
    using assms by simp
  show ?thesis
  proof (cases "load_name ?st1 ''data''")
    case (Inl e)
    then show ?thesis by (simp add: convert_data_def Let_def)
  next
    case (Inr d)
    show ?thesis
    proof (cases "py_iter d")
      case (Inl e)
      with Inr show ?thesis by (simp add: convert_data_def Let_def)
    next
      case items: (Inr items)
      show ?thesis
      proof (cases items)
        case Nil
        with Inr items show ?thesis by (simp add: convert_data_def Let_def)
      next
        case (Cons item rest)
        with Inr items convert_loop_unbound [OF unbound, of item rest] show ?thesis
          by (simp add: convert_data_def Let_def)
      qed
    qed
  qed
qed

lemma load_dataset_outcome:
  assumes "globals st ''v'' = None"
  shows "files (snd (load_dataset L st)) = files st \<and> globals (snd (load_dataset L st)) ''v'' = None"
  using assms by (auto simp: load_dataset_def Let_def split: option.splits sum.splits)

text \<open>
  C9. The cell is meant to write the converted records to the fixed path
  \<^verbatim>\<open>/content/dataset_2k_prompt_completion.json\<close>. Run in a state where \<^verbatim>\<open>v\<close> is
  unbound, whatever the dataset file holds and whatever the library functions do, the
  cell ends with an exception and leaves every file as it was: the statement that
  writes the intermediate file is not reached.
\<close>

theorem dataset_cell_never_writes:
  assumes "globals st ''v'' = None"
  shows "fst (run_dataset_cell L st) \<noteq> None \<and> files (snd (run_dataset_cell L st)) = files st"
proof (cases "load_dataset L st")
  case (Pair r st1)
  have st1: "files st1 = files st" "globals st1 ''v'' = None"
    using load_dataset_outcome [OF assms, of L] Pair by simp_all
  show ?thesis
  proof (cases r)
    case (Some e)
    with Pair st1 show ?thesis by (simp add: run_dataset_cell_def)
  next
    case None
    from convert_data_outcome [OF st1(2)] show ?thesis
    proof
      assume "\<exists>e. fst (convert_data st1) = Some e \<and> files (snd (convert_data st1)) = files st1"
      then obtain e where "fst (convert_data st1) = Some e" "files (snd (convert_data st1)) = files st1"
        by blast
      with Pair None st1 show ?thesis
        by (cases "convert_data st1") (simp add: run_dataset_cell_def)
    next
      assume ended: "convert_data st1 = (None, store_name ''converted_data'' (PList []) st1)"
      have "first_converted (store_name ''converted_data'' (PList []) st1) = Inl IndexError"
        by (rule first_converted_empty) simp
      with Pair None st1 ended show ?thesis
        by (simp add: run_dataset_cell_def store_and_reload_def)
    qed
  qed
qed

theorem dataset_cell_never_writes_witness:
  "\<forall>L content. fst (run_dataset_cell L (example_state content)) \<noteq> None
     \<and> files (snd (run_dataset_cell L (example_state content))) output_file = None"
proof (intro allI)
  fix L content
  have a: "globals (example_state content) ''v'' = None"
    by (simp add: example_state_def v_unbound_before)
  have "files (example_state content) output_file = None"
    by (simp add: example_state_def dataset_def output_file_def)
  with dataset_cell_never_writes [OF a, of L]
  show "fst (run_dataset_cell L (example_state content)) \<noteq> None
     \<and> files (snd (run_dataset_cell L (example_state content))) output_file = None"
    by simp
qed

text \<open>
  What the last part of the cell does when it is reached with converted records and
  the serialiser succeeds: the text that \<^verbatim>\<open>json.dump\<close> produces with \<^verbatim>\<open>indent=2\<close> and
  \<^verbatim>\<open>ensure_ascii=False\<close> is the content of the file at the fixed absolute path.
\<close>

lemma store_and_reload_writes_output_file:
  assumes "globals st ''converted_data'' = Some (PList (x # xs))"
    and "json_dumps L x 2 False = Inr printed"
    and "json_dump L (PList (x # xs)) 2 False = (written, None)"
  shows "files (snd (store_and_reload L st)) output_file = Some written"
    and "hd output_file = CHR ''/''"
proof -
  have first: "first_converted st = Inr x"
    using assms(1) by (simp add: first_converted_def load_name_def py_getitem_def)
  show "files (snd (store_and_reload L st)) output_file = Some written"
    using assms first
    by (auto simp: store_and_reload_def load_name_def write_file_def output_file_def Let_def
        split: option.splits sum.splits)
  show "hd output_file = CHR ''/''"
    by (simp add: output_file_def)
qed

section \<open>Properties of the partitioning and of the trainer's datasets\<close>

lemma n_test_fifth:
  "n \<le> 5 * nat \<lceil>(2 / 10) * real n\<rceil> \<and> 5 * nat \<lceil>(2 / 10) * real n\<rceil> < n + 5"
proof -
  define c where "c = \<lceil>(2 / 10) * real n\<rceil>"
  have c: "of_int c - 1 < (2 / 10) * real n" "(2 / 10) * real n \<le> of_int c"
    unfolding c_def using ceiling_correct [of "(2 / 10) * real n"] by simp_all
  have "0 \<le> c" unfolding c_def by simp
  then have r: "real (nat c) = of_int c" by simp
  have "real n \<le> 5 * real (nat c)" "5 * real (nat c) < real n + 5"
    using c r by linarith+
  then have "n \<le> 5 * nat c" "5 * nat c < n + 5"
    by (metis of_nat_le_iff of_nat_mult of_nat_numeral, metis of_nat_less_iff of_nat_mult of_nat_numeral of_nat_add)
  then show ?thesis by (simp add: c_def)
qed

lemma n_test_half:
  "n \<le> 2 * nat \<lceil>(5 / 10) * real n\<rceil> \<and> 2 * nat \<lceil>(5 / 10) * real n\<rceil> < n + 2"
proof -
  define c where "c = \<lceil>(5 / 10) * real n\<rceil>"
  have c: "of_int c - 1 < (5 / 10) * real n" "(5 / 10) * real n \<le> of_int c"
    unfolding c_def using ceiling_correct [of "(5 / 10) * real n"] by simp_all
  have "0 \<le> c" unfolding c_def by simp
  then have r: "real (nat c) = of_int c" by simp
  have "real n \<le> 2 * real (nat c)" "2 * real (nat c) < real n + 2"
    using c r by linarith+
  then have "n \<le> 2 * nat c" "2 * nat c < n + 2"
    by (metis of_nat_le_iff of_nat_mult of_nat_numeral, metis of_nat_less_iff of_nat_mult of_nat_numeral of_nat_add)
  then show ?thesis by (simp add: c_def)
qed


lemma valid_perm_facts:
  assumes "seeded_permutations_valid R"
  shows "distinct (permutation R (RandomState R 42) n)"
    and "set (permutation R (RandomState R 42) n) = {0..<n}"
    and "length (permutation R (RandomState R 42) n) = n"
proof -
  show d: "distinct (permutation R (RandomState R 42) n)"
    and s: "set (permutation R (RandomState R 42) n) = {0..<n}"
    using assms by (simp_all add: seeded_permutations_valid_def)
  from distinct_card [OF d] s show "length (permutation R (RandomState R 42) n) = n"
    by simp
qed

lemma safe_indexing_in_range:
  "set indices \<subseteq> {0..<length X} \<Longrightarrow> safe_indexing X indices = Inr (map (nth X) indices)"
  by (auto simp: safe_indexing_def list_all_iff)

lemma train_test_split_seeded:
  assumes valid: "seeded_permutations_valid R"
  shows "train_test_split R X test_size (Some 42) =
           (if test_size \<le> 0 \<or> 1 \<le> test_size
               \<or> length X - nat \<lceil>test_size * real (length X)\<rceil> = 0
            then Inl ValueError
            else Inr (map (nth X) (drop (nat \<lceil>test_size * real (length X)\<rceil>)
                                     (permutation R (RandomState R 42) (length X))),
                      map (nth X) (take (nat \<lceil>test_size * real (length X)\<rceil>)
                                     (permutation R (RandomState R 42) (length X)))))"
proof -
  let ?p = "permutation R (RandomState R 42) (length X)"
  let ?k = "nat \<lceil>test_size * real (length X)\<rceil>"
  have len: "length ?p = length X" and st: "set ?p = {0..<length X}"
    using valid_perm_facts [OF valid] by simp_all
  have "take (length X - ?k) (drop ?k ?p) = drop ?k ?p"
    by (simp add: len)
  moreover have "safe_indexing X (drop ?k ?p) = Inr (map (nth X) (drop ?k ?p))"
    using set_drop_subset [of ?k ?p] st by (intro safe_indexing_in_range) simp
  moreover have "safe_indexing X (take ?k ?p) = Inr (map (nth X) (take ?k ?p))"
    using set_take_subset [of ?k ?p] st by (intro safe_indexing_in_range) simp
  ultimately show ?thesis
    by (simp add: train_test_split_def validate_shuffle_split_def check_random_state_def Let_def)
qed

lemma labels_of_selection:
  "set indices \<subseteq> {0..<length X} \<Longrightarrow>
   map fst (map (nth X) indices) = map (nth (map fst X)) indices"
  by (induction indices) simp_all

lemma train_test_split_parts:
  assumes valid: "seeded_permutations_valid R"
    and split: "train_test_split R X test_size (Some 42) = Inr (a, b)"
  shows "length b = nat \<lceil>test_size * real (length X)\<rceil>"
    and "length a + length b = length X"
    and "a \<noteq> []"
    and "set b \<subseteq> set X"
    and "set a \<subseteq> set X"
    and "distinct (map fst X) \<Longrightarrow> distinct (map fst a @ map fst b)"
proof -
  let ?p = "permutation R (RandomState R 42) (length X)"
  let ?k = "nat \<lceil>test_size * real (length X)\<rceil>"
  have len: "length ?p = length X" and st: "set ?p = {0..<length X}" and dp: "distinct ?p"
    using valid_perm_facts [OF valid] by simp_all
  from split have ok: "length X - ?k \<noteq> 0"
    and a: "a = map (nth X) (drop ?k ?p)" and b: "b = map (nth X) (take ?k ?p)"
    unfolding train_test_split_seeded [OF valid] by (simp_all split: if_splits)
  show "length b = ?k" using ok by (simp add: b len)
  show "length a + length b = length X" using ok by (simp add: a b len)
  show "a \<noteq> []" using ok by (simp add: a len)
  have inr: "\<And>i. i \<in> set ?p \<Longrightarrow> i < length X" using st by simp
  show "set b \<subseteq> set X"
    unfolding b using inr by (auto dest!: in_set_takeD)
  show "set a \<subseteq> set X"
    unfolding a using inr by (auto dest!: in_set_dropD)
  show "distinct (map fst a @ map fst b)" if dl: "distinct (map fst X)"
  proof -
    let ?q = "drop ?k ?p @ take ?k ?p"
    have dq: "distinct ?q"
      using dp by (metis append_take_drop_id distinct_append inf_commute)
    have sq: "set ?q = {0..<length X}"
      using st by (metis append_take_drop_id set_append sup_commute)
    have "map fst (map (nth X) ?q) = map (nth (map fst X)) ?q"
      using sq by (intro labels_of_selection) simp
    then have eq: "map fst a @ map fst b = map (nth (map fst X)) ?q"
      by (simp add: a b)
    have "inj_on (nth (map fst X)) (set ?q)"
      using dl sq by (intro inj_on_nth) simp_all
    with dq show ?thesis
      unfolding eq by (simp only: distinct_map)
  qed
qed


lemma split_cell_stages:
  assumes "split_cell R X = Inr P"
  shows "train_test_split R X (2 / 10) (Some 42) = Inr (train_data P, temp_data P)"
    and "train_test_split R (temp_data P) (5 / 10) (Some 42) = Inr (eval_data P, test_data P)"
  using assms by (auto simp: split_cell_def split: sum.splits prod.splits)

text \<open>
  C1. The claim is that the evaluation data handed to the trainer is the validation
  partition and holds no example of the test partition. In the code the evaluation
  dataset is made from \<^verbatim>\<open>temp_data\<close>, the 20% hold-out that the second split divides
  into \<^verbatim>\<open>eval_data\<close> and \<^verbatim>\<open>test_data\<close>: whenever the two splits succeed, the test
  partition is not empty, every one of its rows is in the evaluation dataset, and the
  evaluation dataset is not the validation partition \<^verbatim>\<open>eval_data\<close>.
\<close>

theorem sft_eval_dataset_contains_test_partition:
  assumes "seeded_permutations_valid R" and "split_cell R main_df = Inr P"
  shows "eval_dataset (make_trainer P) = temp_data P
       \<and> eval_dataset (make_trainer P) \<noteq> eval_data P
       \<and> test_data P \<noteq> []
       \<and> set (test_data P) \<subseteq> set (eval_dataset (make_trainer P))"
proof -
  note st = split_cell_stages [OF assms(2)]
  note p2 = train_test_split_parts [OF assms(1) st(2)]
  have "length (temp_data P) \<noteq> 0"
    using p2(2,3) by auto
  then have "0 < (5 / 10) * real (length (temp_data P))"
    by simp
  then have "0 < nat \<lceil>(5 / 10) * real (length (temp_data P))\<rceil>"
    by (simp only: zero_less_nat_eq zero_less_ceiling)
  then have ne: "test_data P \<noteq> []"
    using p2(1) by auto
  then have "length (eval_data P) < length (temp_data P)"
    using p2(2) by (cases "test_data P") simp_all
  then have "temp_data P \<noteq> eval_data P"
    by auto
  with ne p2(4) show ?thesis
    by (simp add: make_trainer_def from_pandas_def)
qed

lemma example_rng_valid: "seeded_permutations_valid example_rng"
  by (simp add: seeded_permutations_valid_def example_rng_def)

lemma split_cell_toy:
  "split_cell example_rng toy_frame =
     Inr toy_partitions"
proof -
  have c1: "nat \<lceil>(2 / 10) * real (10::nat)\<rceil> = 2" by simp
  have c2: "nat \<lceil>(5 / 10) * real (2::nat)\<rceil> = 1" by simp
  have l: "length toy_frame = 10" by (simp add: toy_frame_def)
  have r10: "permutation example_rng (RandomState example_rng 42) 10 = [2, 3, 4, 5, 6, 7, 8, 9, 0, 1]"
    unfolding example_rng_def by code_simp
  have r2: "permutation example_rng (RandomState example_rng 42) 2 = [0, 1]"
    unfolding example_rng_def by code_simp
  have s1: "train_test_split example_rng toy_frame (2 / 10) (Some 42)
      = Inr (map (nth toy_frame) [4, 5, 6, 7, 8, 9, 0, 1], map (nth toy_frame) [2, 3])"
    unfolding train_test_split_seeded [OF example_rng_valid] l c1 r10 by simp
  have s2: "train_test_split example_rng (map (nth toy_frame) [2, 3]) (5 / 10) (Some 42)
      = Inr (map (nth toy_frame) [3], map (nth toy_frame) [2])"
    unfolding train_test_split_seeded [OF example_rng_valid]
    using c2 r2 by (simp add: numeral_2_eq_2 [symmetric])
  show ?thesis
    unfolding split_cell_def s1 using s2 by (simp add: toy_partitions_def)
qed


theorem sft_eval_dataset_contains_test_partition_witness:
  "split_cell example_rng toy_frame = Inr toy_partitions
   \<and> eval_dataset (make_trainer toy_partitions) = temp_data toy_partitions
   \<and> eval_dataset (make_trainer toy_partitions) \<noteq> eval_data toy_partitions
   \<and> test_data toy_partitions \<noteq> []
   \<and> set (test_data toy_partitions) \<subseteq> set (eval_dataset (make_trainer toy_partitions))"
  using sft_eval_dataset_contains_test_partition [OF example_rng_valid split_cell_toy]
    split_cell_toy
  by blast

lemma train_test_split_ignores_global_state:
  "train_test_split (R\<lparr>global_state := g\<rparr>) X test_size (Some seed)
     = train_test_split R X test_size (Some seed)"
  by (cases "validate_shuffle_split (length X) test_size")
    (auto simp: train_test_split_def check_random_state_def Let_def)

lemma split_cell_ignores_global_state:
  "split_cell (R\<lparr>global_state := g\<rparr>) X = split_cell R X"
  by (simp only: split_cell_def train_test_split_ignores_global_state)

lemma train_test_split_succeeds:
  assumes valid: "seeded_permutations_valid R"
    and frac: "0 < test_size" "test_size < 1"
    and room: "nat \<lceil>test_size * real (length X)\<rceil> < length X"
  shows "\<exists>a b. train_test_split R X test_size (Some 42) = Inr (a, b)
           \<and> length b = nat \<lceil>test_size * real (length X)\<rceil>"
proof -
  have "\<exists>a b. train_test_split R X test_size (Some 42) = Inr (a, b)"
    unfolding train_test_split_seeded [OF valid] using frac room by simp
  then obtain a b where ab: "train_test_split R X test_size (Some 42) = Inr (a, b)"
    by blast
  from train_test_split_parts(1) [OF valid ab] ab show ?thesis
    by blast
qed

lemma split_cell_succeeds:
  assumes valid: "seeded_permutations_valid R" and big: "6 \<le> length X"
  shows "\<exists>P. split_cell R X = Inr P"
proof -
  define c where "c = nat \<lceil>(2 / 10) * real (length X)\<rceil>"
  have c: "length X \<le> 5 * c" "5 * c < length X + 5"
    using n_test_fifth [of "length X"] by (simp_all add: c_def)
  with big have c_lt: "c < length X" and c_ge: "2 \<le> c"
    by linarith+
  from train_test_split_succeeds [OF valid, of "2 / 10" X] c_lt
  obtain train temp where s1: "train_test_split R X (2 / 10) (Some 42) = Inr (train, temp)"
    and lt: "length temp = c"
    unfolding c_def by auto
  define t where "t = nat \<lceil>(5 / 10) * real (length temp)\<rceil>"
  have "2 * t < length temp + 2"
    using n_test_half [of "length temp"] by (simp add: t_def)
  with c_ge lt have t_lt: "t < length temp"
    by linarith
  from train_test_split_succeeds [OF valid, of "5 / 10" temp] t_lt
  obtain ev test where s2: "train_test_split R temp (5 / 10) (Some 42) = Inr (ev, test)"
    unfolding t_def by auto
  show ?thesis
    unfolding split_cell_def s1 using s2 by simp
qed

lemma split_cell_sizes:
  assumes valid: "seeded_permutations_valid R" and ok: "split_cell R X = Inr P"
  shows "\<bar>10 * int (length (train_data P)) - 8 * int (length X)\<bar> \<le> 10"
    and "\<bar>10 * int (length (eval_data P)) - int (length X)\<bar> \<le> 10"
    and "\<bar>10 * int (length (test_data P)) - int (length X)\<bar> \<le> 10"
proof -
  note st = split_cell_stages [OF ok]
  note p1 = train_test_split_parts [OF valid st(1)]
  note p2 = train_test_split_parts [OF valid st(2)]
  define n where "n = length X"
  define c where "c = length (temp_data P)"
  define t where "t = length (test_data P)"
  have c: "n \<le> 5 * c" "5 * c < n + 5"
    using n_test_fifth [of "length X"] p1(1) by (simp_all add: n_def c_def)
  have t: "c \<le> 2 * t" "2 * t < c + 2"
    using n_test_half [of "length (temp_data P)"] p2(1) by (simp_all add: c_def t_def)
  have tr: "length (train_data P) + c = n"
    using p1(2) by (simp add: n_def c_def)
  have ev: "length (eval_data P) + t = c"
    using p2(2) by (simp add: t_def c_def)
  show "\<bar>10 * int (length (train_data P)) - 8 * int (length X)\<bar> \<le> 10"
    using c t tr ev unfolding n_def [symmetric] by linarith
  show "\<bar>10 * int (length (eval_data P)) - int (length X)\<bar> \<le> 10"
    using c t tr ev unfolding n_def [symmetric] by linarith
  show "\<bar>10 * int (length (test_data P)) - int (length X)\<bar> \<le> 10"
    using c t tr ev unfolding n_def [symmetric] t_def [symmetric] by linarith
qed

lemma split_cell_disjoint:
  assumes valid: "seeded_permutations_valid R" and ok: "split_cell R X = Inr P"
    and labels: "distinct (map fst X)"
  shows "set (map fst (train_data P)) \<inter> set (map fst (eval_data P)) = {}"
    and "set (map fst (train_data P)) \<inter> set (map fst (test_data P)) = {}"
    and "set (map fst (eval_data P)) \<inter> set (map fst (test_data P)) = {}"
proof -
  note st = split_cell_stages [OF ok]
  note p1 = train_test_split_parts [OF valid st(1)]
  note p2 = train_test_split_parts [OF valid st(2)]
  from p1(6) [OF labels] have d1: "distinct (map fst (temp_data P))"
    and x1: "set (map fst (train_data P)) \<inter> set (map fst (temp_data P)) = {}"
    by simp_all
  from p2(6) [OF d1] show "set (map fst (eval_data P)) \<inter> set (map fst (test_data P)) = {}"
    by simp
  have "set (map fst (eval_data P)) \<subseteq> set (map fst (temp_data P))"
    using p2(5) by auto
  with x1 show "set (map fst (train_data P)) \<inter> set (map fst (eval_data P)) = {}"
    by blast
  have "set (map fst (test_data P)) \<subseteq> set (map fst (temp_data P))"
    using p2(4) by auto
  with x1 show "set (map fst (train_data P)) \<inter> set (map fst (test_data P)) = {}"
    by blast
qed

text \<open>
  C3. With the seed fixed at 42, and the generator yielding permutations of the
  positions, the two-stage partitioning of a frame with distinct index labels
  \<^item> does not depend on the state of the process-wide generator, so the same frame gives
    the same outcome on every run;
  \<^item> yields its partitions whenever the frame has at least six rows;
  \<^item> yields train, validation and test partitions whose sizes are within one row of
    80%, 10% and 10% of the frame (the differences are stated multiplied by ten);
  \<^item> puts no row, identified by its label, in two of the three partitions.
\<close>

theorem two_stage_split_deterministic_sized_disjoint:
  assumes "seeded_permutations_valid R" and "distinct (map fst main_df)"
  shows "split_cell (R\<lparr>global_state := g\<rparr>) main_df = split_cell R main_df
       \<and> (6 \<le> length main_df \<longrightarrow> (\<exists>P. split_cell R main_df = Inr P))
       \<and> (\<forall>P. split_cell R main_df = Inr P \<longrightarrow>
            \<bar>10 * int (length (train_data P)) - 8 * int (length main_df)\<bar> \<le> 10
          \<and> \<bar>10 * int (length (eval_data P)) - int (length main_df)\<bar> \<le> 10
          \<and> \<bar>10 * int (length (test_data P)) - int (length main_df)\<bar> \<le> 10
          \<and> set (map fst (train_data P)) \<inter> set (map fst (eval_data P)) = {}
          \<and> set (map fst (train_data P)) \<inter> set (map fst (test_data P)) = {}
          \<and> set (map fst (eval_data P)) \<inter> set (map fst (test_data P)) = {})"
  using split_cell_ignores_global_state [where R = R and g = g and X = main_df]
    split_cell_succeeds [OF assms(1), of main_df]
    split_cell_sizes [OF assms(1), of main_df]
    split_cell_disjoint [OF assms(1) _ assms(2)]
  by blast

lemma toy_frame_labels: "map fst toy_frame = [0..<10]"
  by (simp add: toy_frame_def comp_def)

theorem two_stage_split_deterministic_sized_disjoint_witness:
  "split_cell (example_rng\<lparr>global_state := 99\<rparr>) toy_frame = Inr toy_partitions
   \<and> \<bar>10 * int (length (train_data toy_partitions)) - 8 * int (length toy_frame)\<bar> \<le> 10
   \<and> \<bar>10 * int (length (eval_data toy_partitions)) - int (length toy_frame)\<bar> \<le> 10
   \<and> \<bar>10 * int (length (test_data toy_partitions)) - int (length toy_frame)\<bar> \<le> 10
   \<and> set (map fst (train_data toy_partitions)) \<inter> set (map fst (eval_data toy_partitions)) = {}
   \<and> set (map fst (train_data toy_partitions)) \<inter> set (map fst (test_data toy_partitions)) = {}
   \<and> set (map fst (eval_data toy_partitions)) \<inter> set (map fst (test_data toy_partitions)) = {}"
proof -
  have labels: "distinct (map fst toy_frame)"
    by (simp add: toy_frame_labels)
  have big: "6 \<le> length toy_frame"
    by (simp add: toy_frame_def)
  from two_stage_split_deterministic_sized_disjoint [OF example_rng_valid labels, of 99]
    big split_cell_toy
  show ?thesis
    by (metis (no_types, lifting))
qed

section \<open>Properties of \<^verbatim>\<open>get_completion\<close>\<close>

lemma get_completion_recorded:
  "get_completion recorded_query recorded_model marker_tokenizer = Inr recorded_output"
  by (simp add: get_completion_def recorded_model_def marker_tokenizer_def py_getitem_def
      format_prompt_def template_before_def template_after_def NL_def recorded_query_def
      recorded_continuation_def recorded_output_def)

lemma recorded_output_not_prefixed:
  "\<not> prefix (format_prompt recorded_query) recorded_output"
  by (simp add: format_prompt_def template_before_def template_after_def NL_def
      recorded_query_def recorded_output_def)

text \<open>
  C10, as stated, fails: for the query of the notebook's last cell, with a tokenizer
  and a model that reproduce the output recorded there, the string returned does not
  have the formatted prompt as a prefix. The prompt's turn markers are special tokens
  and \<^verbatim>\<open>skip_special_tokens=True\<close> leaves them out.
\<close>

theorem get_completion_prompt_prefix_counterexample:
  "get_completion recorded_query recorded_model marker_tokenizer = Inr recorded_output
   \<and> \<not> prefix (format_prompt recorded_query) recorded_output"
  using get_completion_recorded recorded_output_not_prefixed by simp

lemma get_completion_first_sequence:
  "model (encode tok (format_prompt query) True)
     \<lparr>max_new_tokens = 1000, do_sample = True, pad_token_id = eos_token_id tok\<rparr>
     = Inr (ids # others)
   \<Longrightarrow> get_completion query model tok = Inr (decode tok ids True)"
  by (simp add: get_completion_def py_getitem_def)

lemma marker_decode_append:
  "decode marker_tokenizer (a @ b) True
     = decode marker_tokenizer a True @ decode marker_tokenizer b True"
  by (simp add: marker_tokenizer_def)

lemma marker_decode_tokenize:
  "concat (map token_text (filter (\<lambda>t. \<not> is_special t) (tokenize s))) = strip_markers s"
  by (induction s rule: tokenize.induct) simp_all

lemma marker_roundtrip:
  "decode marker_tokenizer (encode marker_tokenizer s True) True = strip_markers s"
  by (simp add: marker_tokenizer_def marker_decode_tokenize)

lemma strip_markers_prompt_nonempty: "strip_markers (format_prompt query) \<noteq> []"
  by (simp add: format_prompt_def template_before_def NL_def)

text \<open>
  C10, amended. For every query, \<^verbatim>\<open>get_completion\<close> returns the decoding, with special
  tokens skipped, of the first sequence that \<^verbatim>\<open>generate\<close> returns, whatever the other
  sequences of the batch are. When that sequence is the encoded prompt followed by a
  continuation, and decoding a concatenation is concatenating the decodings, the
  returned string is the decoding of the prompt's tokens followed by the decoding of
  the continuation, so the decoded prompt is a prefix of it. When moreover the
  tokenizer gives a text back without its special tokens, that prefix is the formatted
  prompt without its turn markers, and the caller does not receive the continuation
  alone.
\<close>

theorem get_completion_returns_stripped_prompt_then_continuation:
  assumes gen: "model (encode tok (format_prompt query) True)
                  \<lparr>max_new_tokens = 1000, do_sample = True, pad_token_id = eos_token_id tok\<rparr>
                = Inr ((encode tok (format_prompt query) True @ continuation) # others)"
    and hom: "\<forall>a b. decode tok (a @ b) True = decode tok a True @ decode tok b True"
  shows "\<exists>out. get_completion query model tok = Inr out
           \<and> out = decode tok (encode tok (format_prompt query) True @ continuation) True
           \<and> out = decode tok (encode tok (format_prompt query) True) True
                     @ decode tok continuation True
           \<and> prefix (decode tok (encode tok (format_prompt query) True) True) out
           \<and> (decode tok (encode tok (format_prompt query) True) True
                  = strip_markers (format_prompt query)
                \<longrightarrow> prefix (strip_markers (format_prompt query)) out
                    \<and> out \<noteq> decode tok continuation True)"
proof -
  let ?p = "decode tok (encode tok (format_prompt query) True) True"
  let ?out = "decode tok (encode tok (format_prompt query) True @ continuation) True"
  have ret: "get_completion query model tok = Inr ?out"
    using gen by (rule get_completion_first_sequence)
  have split: "?out = ?p @ decode tok continuation True"
    using hom by simp
  have "?p = strip_markers (format_prompt query) \<longrightarrow>
          prefix (strip_markers (format_prompt query)) ?out \<and> ?out \<noteq> decode tok continuation True"
    using split strip_markers_prompt_nonempty [of query] by auto
  with ret split show ?thesis
    by auto
qed

theorem get_completion_returns_stripped_prompt_then_continuation_witness:
  "get_completion recorded_query recorded_model marker_tokenizer = Inr recorded_output
   \<and> recorded_output = strip_markers (format_prompt recorded_query) @ recorded_continuation
   \<and> prefix (strip_markers (format_prompt recorded_query)) recorded_output
   \<and> recorded_output \<noteq> recorded_continuation"
proof -
  let ?enc = "encode marker_tokenizer (format_prompt recorded_query) True"
  let ?cont = "map Chr recorded_continuation @ [Eos]"
  have gen: "recorded_model ?enc
               \<lparr>max_new_tokens = 1000, do_sample = True,
                pad_token_id = eos_token_id marker_tokenizer\<rparr>
             = Inr ((?enc @ ?cont) # [])"
    by (simp add: recorded_model_def)
  have hom: "\<forall>a b. decode marker_tokenizer (a @ b) True
                    = decode marker_tokenizer a True @ decode marker_tokenizer b True"
    by (simp add: marker_decode_append)
  have rt: "decode marker_tokenizer ?enc True = strip_markers (format_prompt recorded_query)"
    by (rule marker_roundtrip)
  have cont: "decode marker_tokenizer ?cont True = recorded_continuation"
    by (simp add: marker_tokenizer_def comp_def filter_map)
  from get_completion_returns_stripped_prompt_then_continuation
         [where query = recorded_query and model = recorded_model and tok = marker_tokenizer
            and continuation = "?cont" and others = "[]", OF gen hom]
  obtain out where out:
    "get_completion recorded_query recorded_model marker_tokenizer = Inr out"
    "out = decode marker_tokenizer ?enc True @ decode marker_tokenizer ?cont True"
    "decode marker_tokenizer ?enc True = strip_markers (format_prompt recorded_query)
       \<longrightarrow> prefix (strip_markers (format_prompt recorded_query)) out
           \<and> out \<noteq> decode marker_tokenizer ?cont True"
    by blast
  from out(1) get_completion_recorded have eq: "out = recorded_output"
    by simp
  from out(2,3) rt cont eq show ?thesis
    using out(1) by simp
qed

end
